theory Spec2Isabelle
  imports Main "HOL-Library.Word" "HOL-Library.Char_ord" "HOL-Library.List_Lexorder" "HOL-Library.AList"
begin

section \<open>Go values the package passes around\<close>

text \<open>
  Package \<^verbatim>\<open>actionsdk\<close> is five functions around the Go standard library: it reads
  \<^verbatim>\<open>os.Args\<close> and the environment, decodes and encodes with \<^verbatim>\<open>encoding/json\<close>,
  writes to \<^verbatim>\<open>os.Stdout\<close> and keeps one package-level variable. The library is
  not part of the package, so the first sections give a reference model of what the
  five functions call (Go 1.22, a 64-bit platform: \<^verbatim>\<open>int\<close> and \<^verbatim>\<open>uint\<close> are 64 bits
  wide); the package itself starts at section \<open>actionsdk\<close>.
  A Go string is a sequence of bytes: \<open>string\<close>, one \<open>char\<close> per byte.
\<close>

subsection \<open>Errors\<close>

text \<open>
  A Go \<^verbatim>\<open>error\<close> is an interface value; \<^verbatim>\<open>nil\<close> is \<open>None\<close> of \<open>go_error option\<close>.
  \<^item> \<open>ErrorString m\<close>: what \<^verbatim>\<open>fmt.Errorf\<close> returns for a format without \<^verbatim>\<open>%w\<close>.
  \<^item> \<open>WrapError m e\<close>: what \<^verbatim>\<open>fmt.Errorf\<close> returns for a format with \<^verbatim>\<open>%w\<close>:
    the formatted message \<open>m\<close> and the error \<open>e\<close> it wraps.
  \<^item> \<open>SyntaxError m off\<close>: \<^verbatim>\<open>*json.SyntaxError\<close>, its message and Offset.
  \<^item> \<open>UnmarshalTypeError v t s f\<close>: \<^verbatim>\<open>*json.UnmarshalTypeError\<close>, its fields Value,
    Type (the type's name), Struct and Field; its Offset is left out.
  \<^item> \<open>InvalidUnmarshalError t\<close>: \<^verbatim>\<open>*json.InvalidUnmarshalError\<close>, for a destination
    that is a nil pointer of the type named \<open>t\<close> (empty for the untyped \<^verbatim>\<open>nil\<close>).
  \<^item> \<open>UnsupportedTypeError t\<close>: \<^verbatim>\<open>*json.UnsupportedTypeError\<close> for the type named \<open>t\<close>.
  \<^item> \<open>PathError op path m\<close>: \<^verbatim>\<open>*fs.PathError\<close>, what a failed write to a file
    returns; \<open>m\<close> is the message of the system's error.
\<close>

datatype go_error =
    ErrorString string
  | WrapError string go_error
  | SyntaxError string nat
  | UnmarshalTypeError string string string string
  | InvalidUnmarshalError string
  | UnsupportedTypeError string
  | PathError string string string

text \<open>The method \<^verbatim>\<open>Error()\<close>.\<close>

fun Error :: "go_error \<Rightarrow> string" where
  "Error (ErrorString m) = m"
| "Error (WrapError m e) = m"
| "Error (SyntaxError m off) = m"
| "Error (UnmarshalTypeError v t s f) =
     (if s \<noteq> [] \<or> f \<noteq> []
      then ''json: cannot unmarshal '' @ v @ '' into Go struct field '' @ s @ ''.'' @ f
           @ '' of type '' @ t
      else ''json: cannot unmarshal '' @ v @ '' into Go value of type '' @ t)"
| "Error (InvalidUnmarshalError t) =
     (if t = [] then ''json: Unmarshal(nil)'' else ''json: Unmarshal(nil '' @ t @ '')'')"
| "Error (UnsupportedTypeError t) = ''json: unsupported type: '' @ t"
| "Error (PathError op path m) = op @ '' '' @ path @ '': '' @ m"

text \<open>
  \<^verbatim>\<open>fmt.Errorf(prefix + "%s", x)\<close>, where \<open>x\<close> is a string or the message of an error,
  and \<^verbatim>\<open>fmt.Errorf(prefix + "%w", e)\<close>.
\<close>

definition Errorf_s :: "string \<Rightarrow> string \<Rightarrow> go_error" where
  "Errorf_s prefix x = ErrorString (prefix @ x)"

definition Errorf_w :: "string \<Rightarrow> go_error \<Rightarrow> go_error" where
  "Errorf_w prefix e = WrapError (prefix @ Error e) e"

subsection \<open>Bytes and runes\<close>

definition lowerhex :: "nat \<Rightarrow> char" where
  "lowerhex n = ''0123456789abcdef'' ! (n mod 16)"

definition isSpace :: "char \<Rightarrow> bool" where
  "isSpace c = (c = CHR '' '' \<or> c = CHR 0x09 \<or> c = CHR 0x0D \<or> c = CHR 0x0A)"

definition isDigit :: "char \<Rightarrow> bool" where
  "isDigit c = (CHR ''0'' \<le> c \<and> c \<le> CHR ''9'')"

definition isDigit19 :: "char \<Rightarrow> bool" where
  "isDigit19 c = (CHR ''1'' \<le> c \<and> c \<le> CHR ''9'')"

definition isHex :: "char \<Rightarrow> bool" where
  "isHex c = (isDigit c \<or> CHR ''a'' \<le> c \<and> c \<le> CHR ''f'' \<or> CHR ''A'' \<le> c \<and> c \<le> CHR ''F'')"

definition RuneError :: nat where
  "RuneError = 0xFFFD"

text \<open>
  \<^verbatim>\<open>utf8.DecodeRune\<close>: the first rune of \<open>p\<close> and its width in bytes;
  \<open>(RuneError, 1)\<close> for a byte that starts no well-formed encoding.
\<close>

definition utf8_DecodeRune :: "string \<Rightarrow> nat \<times> nat" where
  "utf8_DecodeRune p =
     (case map of_char (take 4 p) of
        [] \<Rightarrow> (RuneError, 0)
      | p0 # ps \<Rightarrow>
          if p0 < 0x80 then (p0, 1)
          else
            let sz = (if 0xC2 \<le> p0 \<and> p0 \<le> 0xDF then 2
                      else if 0xE0 \<le> p0 \<and> p0 \<le> 0xEF then 3
                      else if 0xF0 \<le> p0 \<and> p0 \<le> 0xF4 then 4 else (0::nat));
                lo = (if p0 = 0xE0 then 0xA0 else if p0 = 0xF0 then 0x90 else (0x80::nat));
                hi = (if p0 = 0xED then 0x9F else if p0 = 0xF4 then 0x8F else (0xBF::nat))
            in
            if sz = 0 \<or> Suc (length ps) < sz then (RuneError, 1)
            else let b1 = ps ! 0 in
              if b1 < lo \<or> hi < b1 then (RuneError, 1)
              else if sz = 2 then ((p0 mod 32) * 64 + b1 mod 64, 2)
              else let b2 = ps ! 1 in
                if b2 < 0x80 \<or> 0xBF < b2 then (RuneError, 1)
                else if sz = 3 then ((p0 mod 16) * 4096 + (b1 mod 64) * 64 + b2 mod 64, 3)
                else let b3 = ps ! 2 in
                  if b3 < 0x80 \<or> 0xBF < b3 then (RuneError, 1)
                  else ((p0 mod 8) * 262144 + (b1 mod 64) * 4096 + (b2 mod 64) * 64 + b3 mod 64, 4))"

text \<open>\<^verbatim>\<open>utf8.EncodeRune\<close>: a surrogate or a value past U+10FFFF is written as U+FFFD.\<close>

definition utf8_EncodeRune :: "nat \<Rightarrow> string" where
  "utf8_EncodeRune r =
     (if r < 0x80 then [char_of r]
      else if r < 0x800 then [char_of (0xC0 + r div 64), char_of (0x80 + r mod 64)]
      else if 0x10FFFF < r \<or> (0xD800 \<le> r \<and> r \<le> 0xDFFF) then [CHR 0xEF, CHR 0xBF, CHR 0xBD]
      else if r < 0x10000 then
        [char_of (0xE0 + r div 4096), char_of (0x80 + (r div 64) mod 64), char_of (0x80 + r mod 64)]
      else
        [char_of (0xF0 + r div 262144), char_of (0x80 + (r div 4096) mod 64),
         char_of (0x80 + (r div 64) mod 64), char_of (0x80 + r mod 64)])"

section \<open>encoding/json: the scanner\<close>

text \<open>
  \<^verbatim>\<open>json.Unmarshal\<close> first runs \<^verbatim>\<open>checkValid\<close>: the scanner of \<^verbatim>\<open>scanner.go\<close>, a
  state machine fed one byte at a time. Each Go function \<^verbatim>\<open>stateX\<close> is a value of
  \<open>scan_state\<close>; \<open>scan_step\<close> is the call \<^verbatim>\<open>s.step(s, c)\<close>. The machine's return code
  is not kept: \<^verbatim>\<open>checkValid\<close> only asks whether it is \<^verbatim>\<open>scanError\<close>, and that is the
  case exactly when the step leaves the scanner in \<open>stateError\<close> with \<open>err\<close> set
  (\<^verbatim>\<open>stateEndTop\<close> sets the error one byte before it reports it, with the same error).
\<close>

text \<open>\<^verbatim>\<open>quoteChar\<close>: a byte as a quoted character literal, for error messages.\<close>

definition quoteChar :: "char \<Rightarrow> string" where
  "quoteChar c =
     (let n = (of_char c :: nat) in
      if c = CHR 0x27 then [CHR 0x27, CHR 0x5C, CHR 0x27, CHR 0x27]
      else if c = CHR 0x22 then [CHR 0x27, CHR 0x22, CHR 0x27]
      else [CHR 0x27] @
        (if c = CHR 0x5C then [CHR 0x5C, CHR 0x5C]
         else if 0x20 \<le> n \<and> n \<le> 0x7E then [c]
         else if 0xA1 \<le> n \<and> n \<noteq> 0xAD then [char_of (0xC0 + n div 64), char_of (0x80 + n mod 64)]
         else if n = 7 then [CHR 0x5C, CHR ''a'']
         else if n = 8 then [CHR 0x5C, CHR ''b'']
         else if n = 12 then [CHR 0x5C, CHR ''f'']
         else if n = 10 then [CHR 0x5C, CHR ''n'']
         else if n = 13 then [CHR 0x5C, CHR ''r'']
         else if n = 9 then [CHR 0x5C, CHR ''t'']
         else if n = 11 then [CHR 0x5C, CHR ''v'']
         else if n < 0x20 \<or> n = 0x7F then [CHR 0x5C, CHR ''x'', lowerhex (n div 16), lowerhex n]
         else [CHR 0x5C, CHR ''u'', CHR ''0'', CHR ''0'', lowerhex (n div 16), lowerhex n])
        @ [CHR 0x27])"

datatype scan_state =
    stateBeginValueOrEmpty | stateBeginValue | stateBeginStringOrEmpty | stateBeginString
  | stateEndValue | stateEndTop
  | stateInString | stateInStringEsc | stateInStringEscU | stateInStringEscU1
  | stateInStringEscU12 | stateInStringEscU123
  | stateNeg | state1 | state0 | stateDot | stateDot0 | stateE | stateESign | stateE0
  | stateT | stateTr | stateTru | stateF | stateFa | stateFal | stateFals
  | stateN | stateNu | stateNul | stateError

datatype parse_state = parseObjectKey | parseObjectValue | parseArrayValue

text \<open>The scanner; the top of its \<open>parseState\<close> stack is the head of the list.\<close>

record scanner =
  step :: scan_state
  endTop :: bool
  parseState :: "parse_state list"
  err :: "go_error option"
  bytes :: nat

definition maxNestingDepth :: nat where
  "maxNestingDepth = 10000"

definition scan_error :: "scanner \<Rightarrow> char \<Rightarrow> string \<Rightarrow> scanner" where
  "scan_error s c context =
     s\<lparr>step := stateError,
       err := Some (SyntaxError (''invalid character '' @ quoteChar c @ '' '' @ context) (bytes s))\<rparr>"

definition pushParseState :: "scanner \<Rightarrow> char \<Rightarrow> parse_state \<Rightarrow> scanner" where
  "pushParseState s c newParseState =
     (let s' = s\<lparr>parseState := newParseState # parseState s\<rparr> in
      if length (parseState s') \<le> maxNestingDepth then s'
      else scan_error s' c ''exceeded max depth'')"

definition popParseState :: "scanner \<Rightarrow> scanner" where
  "popParseState s =
     (let ps = tl (parseState s) in
      if ps = [] then s\<lparr>parseState := ps, step := stateEndTop, endTop := True\<rparr>
      else s\<lparr>parseState := ps, step := stateEndValue\<rparr>)"

definition do_stateEndTop :: "scanner \<Rightarrow> char \<Rightarrow> scanner" where
  "do_stateEndTop s c = (if \<not> isSpace c then scan_error s c ''after top-level value'' else s)"

definition do_stateEndValue :: "scanner \<Rightarrow> char \<Rightarrow> scanner" where
  "do_stateEndValue s c =
     (case parseState s of
        [] \<Rightarrow> do_stateEndTop (s\<lparr>step := stateEndTop, endTop := True\<rparr>) c
      | ps # rest \<Rightarrow>
          if isSpace c then s\<lparr>step := stateEndValue\<rparr>
          else (case ps of
             parseObjectKey \<Rightarrow>
               if c = CHR '':'' then s\<lparr>parseState := parseObjectValue # rest, step := stateBeginValue\<rparr>
               else scan_error s c ''after object key''
           | parseObjectValue \<Rightarrow>
               if c = CHR '','' then s\<lparr>parseState := parseObjectKey # rest, step := stateBeginString\<rparr>
               else if c = CHR ''}'' then popParseState s
               else scan_error s c ''after object key:value pair''
           | parseArrayValue \<Rightarrow>
               if c = CHR '','' then s\<lparr>step := stateBeginValue\<rparr>
               else if c = CHR '']'' then popParseState s
               else scan_error s c ''after array element''))"

definition do_stateBeginValue :: "scanner \<Rightarrow> char \<Rightarrow> scanner" where
  "do_stateBeginValue s c =
     (if isSpace c then s
      else if c = CHR ''{'' then pushParseState (s\<lparr>step := stateBeginStringOrEmpty\<rparr>) c parseObjectKey
      else if c = CHR ''['' then pushParseState (s\<lparr>step := stateBeginValueOrEmpty\<rparr>) c parseArrayValue
      else if c = CHR 0x22 then s\<lparr>step := stateInString\<rparr>
      else if c = CHR ''-'' then s\<lparr>step := stateNeg\<rparr>
      else if c = CHR ''0'' then s\<lparr>step := state0\<rparr>
      else if c = CHR ''t'' then s\<lparr>step := stateT\<rparr>
      else if c = CHR ''f'' then s\<lparr>step := stateF\<rparr>
      else if c = CHR ''n'' then s\<lparr>step := stateN\<rparr>
      else if isDigit19 c then s\<lparr>step := state1\<rparr>
      else scan_error s c ''looking for beginning of value'')"

definition do_stateBeginString :: "scanner \<Rightarrow> char \<Rightarrow> scanner" where
  "do_stateBeginString s c =
     (if isSpace c then s
      else if c = CHR 0x22 then s\<lparr>step := stateInString\<rparr>
      else scan_error s c ''looking for beginning of object key string'')"

definition do_state0 :: "scanner \<Rightarrow> char \<Rightarrow> scanner" where
  "do_state0 s c =
     (if c = CHR ''.'' then s\<lparr>step := stateDot\<rparr>
      else if c = CHR ''e'' \<or> c = CHR ''E'' then s\<lparr>step := stateE\<rparr>
      else do_stateEndValue s c)"

definition do_stateESign :: "scanner \<Rightarrow> char \<Rightarrow> scanner" where
  "do_stateESign s c =
     (if isDigit c then s\<lparr>step := stateE0\<rparr>
      else scan_error s c ''in exponent of numeric literal'')"

text \<open>
  The states inside \<^verbatim>\<open>true\<close>, \<^verbatim>\<open>false\<close> and \<^verbatim>\<open>null\<close> expect one byte each, and the
  four states of a Unicode escape one hexadecimal digit each.
\<close>

definition scan_literal :: "scanner \<Rightarrow> char \<Rightarrow> char \<Rightarrow> scan_state \<Rightarrow> string \<Rightarrow> scanner" where
  "scan_literal s c expected next lit =
     (if c = expected then s\<lparr>step := next\<rparr>
      else scan_error s c
             (''in literal '' @ lit @ '' (expecting '' @ [CHR 0x27, expected, CHR 0x27] @ '')''))"

definition scan_hex :: "scanner \<Rightarrow> char \<Rightarrow> scan_state \<Rightarrow> scanner" where
  "scan_hex s c next =
     (if isHex c then s\<lparr>step := next\<rparr>
      else scan_error s c (''in '' @ [CHR 0x5C] @ ''u hexadecimal character escape''))"

fun scan_step :: "scan_state \<Rightarrow> scanner \<Rightarrow> char \<Rightarrow> scanner" where
  "scan_step stateBeginValueOrEmpty s c =
     (if isSpace c then s
      else if c = CHR '']'' then do_stateEndValue s c
      else do_stateBeginValue s c)"
| "scan_step stateBeginValue s c = do_stateBeginValue s c"
| "scan_step stateBeginStringOrEmpty s c =
     (if isSpace c then s
      else if c = CHR ''}''
      then do_stateEndValue (s\<lparr>parseState := parseObjectValue # tl (parseState s)\<rparr>) c
      else do_stateBeginString s c)"
| "scan_step stateBeginString s c = do_stateBeginString s c"
| "scan_step stateEndValue s c = do_stateEndValue s c"
| "scan_step stateEndTop s c = do_stateEndTop s c"
| "scan_step stateInString s c =
     (if c = CHR 0x22 then s\<lparr>step := stateEndValue\<rparr>
      else if c = CHR 0x5C then s\<lparr>step := stateInStringEsc\<rparr>
      else if (of_char c :: nat) < 0x20 then scan_error s c ''in string literal''
      else s)"
| "scan_step stateInStringEsc s c =
     (if c \<in> set [CHR ''b'', CHR ''f'', CHR ''n'', CHR ''r'', CHR ''t'', CHR 0x5C, CHR ''/'', CHR 0x22]
      then s\<lparr>step := stateInString\<rparr>
      else if c = CHR ''u'' then s\<lparr>step := stateInStringEscU\<rparr>
      else scan_error s c ''in string escape code'')"
| "scan_step stateInStringEscU s c = scan_hex s c stateInStringEscU1"
| "scan_step stateInStringEscU1 s c = scan_hex s c stateInStringEscU12"
| "scan_step stateInStringEscU12 s c = scan_hex s c stateInStringEscU123"
| "scan_step stateInStringEscU123 s c = scan_hex s c stateInString"
| "scan_step stateNeg s c =
     (if c = CHR ''0'' then s\<lparr>step := state0\<rparr>
      else if isDigit19 c then s\<lparr>step := state1\<rparr>
      else scan_error s c ''in numeric literal'')"
| "scan_step state1 s c = (if isDigit c then s\<lparr>step := state1\<rparr> else do_state0 s c)"
| "scan_step state0 s c = do_state0 s c"
| "scan_step stateDot s c =
     (if isDigit c then s\<lparr>step := stateDot0\<rparr>
      else scan_error s c ''after decimal point in numeric literal'')"
| "scan_step stateDot0 s c =
     (if isDigit c then s
      else if c = CHR ''e'' \<or> c = CHR ''E'' then s\<lparr>step := stateE\<rparr>
      else do_stateEndValue s c)"
| "scan_step stateE s c =
     (if c = CHR ''+'' \<or> c = CHR ''-'' then s\<lparr>step := stateESign\<rparr> else do_stateESign s c)"
| "scan_step stateESign s c = do_stateESign s c"
| "scan_step stateE0 s c = (if isDigit c then s else do_stateEndValue s c)"
| "scan_step stateT s c = scan_literal s c CHR ''r'' stateTr ''true''"
| "scan_step stateTr s c = scan_literal s c CHR ''u'' stateTru ''true''"
| "scan_step stateTru s c = scan_literal s c CHR ''e'' stateEndValue ''true''"
| "scan_step stateF s c = scan_literal s c CHR ''a'' stateFa ''false''"
| "scan_step stateFa s c = scan_literal s c CHR ''l'' stateFal ''false''"
| "scan_step stateFal s c = scan_literal s c CHR ''s'' stateFals ''false''"
| "scan_step stateFals s c = scan_literal s c CHR ''e'' stateEndValue ''false''"
| "scan_step stateN s c = scan_literal s c CHR ''u'' stateNu ''null''"
| "scan_step stateNu s c = scan_literal s c CHR ''l'' stateNul ''null''"
| "scan_step stateNul s c = scan_literal s c CHR ''l'' stateEndValue ''null''"
| "scan_step stateError s c = s"

definition scanner_reset :: scanner where
  "scanner_reset = \<lparr>step = stateBeginValue, endTop = False, parseState = [], err = None, bytes = 0\<rparr>"

text \<open>\<^verbatim>\<open>scanner.eof\<close>, returning the error of the scanner, if any.\<close>

definition scanner_eof :: "scanner \<Rightarrow> go_error option" where
  "scanner_eof s =
     (if err s \<noteq> None then err s
      else if endTop s then None
      else let s' = scan_step (step s) s CHR '' '' in
        if endTop s' then None
        else if err s' = None then Some (SyntaxError ''unexpected end of JSON input'' (bytes s'))
        else err s')"

fun scan_bytes :: "scanner \<Rightarrow> string \<Rightarrow> scanner" where
  "scan_bytes s [] = s"
| "scan_bytes s (c # cs) =
     (let s1 = s\<lparr>bytes := Suc (bytes s)\<rparr>; s2 = scan_step (step s1) s1 c in
      if step s2 = stateError then s2 else scan_bytes s2 cs)"

text \<open>\<^verbatim>\<open>checkValid\<close>: \<open>None\<close> when \<open>data\<close> is one JSON value, the syntax error otherwise.\<close>

definition checkValid :: "string \<Rightarrow> go_error option" where
  "checkValid data = scanner_eof (scan_bytes scanner_reset data)"

section \<open>encoding/json: decoding\<close>

subsection \<open>String literals\<close>

definition hexval :: "char \<Rightarrow> nat" where
  "hexval c =
     (if isDigit c then of_char c - of_char CHR ''0''
      else if CHR ''a'' \<le> c \<and> c \<le> CHR ''f'' then of_char c - of_char CHR ''a'' + 10
      else of_char c - of_char CHR ''A'' + 10)"

text \<open>\<^verbatim>\<open>getu4\<close>: the value of a leading Unicode escape (six bytes), if \<open>s\<close> starts with one.\<close>

definition getu4 :: "string \<Rightarrow> nat option" where
  "getu4 s =
     (if 6 \<le> length s \<and> s ! 0 = CHR 0x5C \<and> s ! 1 = CHR ''u'' \<and> list_all isHex (take 4 (drop 2 s))
      then Some (foldl (\<lambda>r c. r * 16 + hexval c) 0 (take 4 (drop 2 s)))
      else None)"

text \<open>\<^verbatim>\<open>utf16.DecodeRune\<close>, the second half being the result of \<open>getu4\<close>.\<close>

definition utf16_DecodeRune :: "nat \<Rightarrow> nat option \<Rightarrow> nat" where
  "utf16_DecodeRune r1 r2 =
     (case r2 of
        None \<Rightarrow> RuneError
      | Some r2 \<Rightarrow>
          if 0xD800 \<le> r1 \<and> r1 < 0xDC00 \<and> 0xDC00 \<le> r2 \<and> r2 < 0xE000
          then (r1 - 0xD800) * 1024 + (r2 - 0xDC00) + 0x10000
          else RuneError)"

definition unescape :: "char \<Rightarrow> char" where
  "unescape d =
     (if d = CHR ''b'' then CHR 0x08 else if d = CHR ''f'' then CHR 0x0C
      else if d = CHR ''n'' then CHR 0x0A else if d = CHR ''r'' then CHR 0x0D
      else if d = CHR ''t'' then CHR 0x09 else d)"

text \<open>
  \<^verbatim>\<open>unquote\<close>, on the bytes between the quotes of a literal the scanner accepted:
  escapes are replaced, a surrogate pair becomes one rune, a lone surrogate and every
  byte that is not well-formed UTF-8 become U+FFFD.
\<close>

function unquote :: "string \<Rightarrow> string" where
  "unquote [] = []"
| "unquote (c # cs) =
     (if c = CHR 0x5C then
        (case cs of
           [] \<Rightarrow> []
         | d # ds \<Rightarrow>
             if d = CHR ''u'' then
               (case getu4 (c # cs) of
                  None \<Rightarrow> []
                | Some rr \<Rightarrow>
                    if 0xD800 \<le> rr \<and> rr < 0xE000 then
                      (let dec = utf16_DecodeRune rr (getu4 (drop 5 cs)) in
                       if dec \<noteq> RuneError then utf8_EncodeRune dec @ unquote (drop 11 cs)
                       else utf8_EncodeRune RuneError @ unquote (drop 5 cs))
                    else utf8_EncodeRune rr @ unquote (drop 5 cs))
             else unescape d # unquote ds)
      else if (of_char c :: nat) < 0x80 then c # unquote cs
      else (let (rr, size) = utf8_DecodeRune (c # cs) in
            utf8_EncodeRune rr @ unquote (drop (size - 1) cs)))"
  by pat_completeness auto
termination
  by (relation "measure length") auto

subsection \<open>The value tree\<close>

text \<open>
  After \<open>checkValid\<close> the decoder walks the same bytes again, value by value. Here the
  walk is a parser to a tree, and the decoders below recurse on the tree. A member of an
  object keeps its key (unquoted), the bytes of its value as they stand in the input
  (what a \<^verbatim>\<open>json.RawMessage\<close> receives) and the value; members stay in input order,
  repeated keys included. A number keeps its literal.
\<close>

datatype jnode =
    NNull | NBool bool | NNumber string | NString string
  | NArray "jnode list"
  | NObject "(string \<times> string \<times> jnode) list"

definition skip_space :: "string \<Rightarrow> string" where
  "skip_space = dropWhile isSpace"

definition isNumChar :: "char \<Rightarrow> bool" where
  "isNumChar c = (isDigit c \<or> c \<in> set [CHR ''-'', CHR ''+'', CHR ''.'', CHR ''e'', CHR ''E''])"

text \<open>
  The bytes of a string literal up to its closing quote, and what follows the quote;
  the argument starts after the opening quote.
\<close>

fun scan_string :: "string \<Rightarrow> (string \<times> string) option" where
  "scan_string [] = None"
| "scan_string (c # cs) =
     (if c = CHR 0x22 then Some ([], cs)
      else if c = CHR 0x5C then
        (case cs of
           [] \<Rightarrow> None
         | d # ds \<Rightarrow> map_option (apfst (\<lambda>b. c # d # b)) (scan_string ds))
      else map_option (apfst ((#) c)) (scan_string cs))"

text \<open>
  \<open>parse_value s\<close>: the first value of \<open>s\<close> and the rest of \<open>s\<close>;
  \<open>parse_elements\<close> and \<open>parse_members\<close> read what follows the opening bracket of a
  non-empty array or object, up to and including the closing bracket. The tests
  \<open>length r < length s\<close> always hold (a value is at least one byte long); they are what
  the termination proof reads.
\<close>

function parse_value :: "string \<Rightarrow> (jnode \<times> string) option"
  and parse_elements :: "string \<Rightarrow> (jnode list \<times> string) option"
  and parse_members :: "string \<Rightarrow> ((string \<times> string \<times> jnode) list \<times> string) option"
where
  "parse_value s =
     (case skip_space s of
        [] \<Rightarrow> None
      | c # r \<Rightarrow>
          if c = CHR ''{'' then
            (case skip_space r of
               [] \<Rightarrow> None
             | c' # r' \<Rightarrow>
                 if c' = CHR ''}'' then Some (NObject [], r')
                 else (case parse_members r of
                         None \<Rightarrow> None
                       | Some (ms, r'') \<Rightarrow> Some (NObject ms, r'')))
          else if c = CHR ''['' then
            (case skip_space r of
               [] \<Rightarrow> None
             | c' # r' \<Rightarrow>
                 if c' = CHR '']'' then Some (NArray [], r')
                 else (case parse_elements r of
                         None \<Rightarrow> None
                       | Some (vs, r'') \<Rightarrow> Some (NArray vs, r'')))
          else if c = CHR 0x22 then
            (case scan_string r of
               None \<Rightarrow> None
             | Some (b, r') \<Rightarrow> Some (NString (unquote b), r'))
          else if c = CHR ''t'' then
            (if take 3 r = ''rue'' then Some (NBool True, drop 3 r) else None)
          else if c = CHR ''f'' then
            (if take 4 r = ''alse'' then Some (NBool False, drop 4 r) else None)
          else if c = CHR ''n'' then
            (if take 3 r = ''ull'' then Some (NNull, drop 3 r) else None)
          else if c = CHR ''-'' \<or> isDigit c then
            Some (NNumber (c # takeWhile isNumChar r), dropWhile isNumChar r)
          else None)"
| "parse_elements s =
     (case parse_value s of
        None \<Rightarrow> None
      | Some (v, r) \<Rightarrow>
          if length r < length s then
            (case skip_space r of
               [] \<Rightarrow> None
             | c # r' \<Rightarrow>
                 if c = CHR '','' then
                   (case parse_elements r' of
                      None \<Rightarrow> None
                    | Some (vs, r'') \<Rightarrow> Some (v # vs, r''))
                 else if c = CHR '']'' then Some ([v], r')
                 else None)
          else None)"
| "parse_members s =
     (case skip_space s of
        [] \<Rightarrow> None
      | c # r \<Rightarrow>
          if c = CHR 0x22 then
            (case scan_string r of
               None \<Rightarrow> None
             | Some (k, r1) \<Rightarrow>
                 (case skip_space r1 of
                    [] \<Rightarrow> None
                  | c1 # r2 \<Rightarrow>
                      if c1 = CHR '':'' then
                        (case parse_value (skip_space r2) of
                           None \<Rightarrow> None
                         | Some (v, r4) \<Rightarrow>
                             if length r4 < length (skip_space r2) then
                               (let m = (unquote k,
                                         take (length (skip_space r2) - length r4) (skip_space r2), v)
                                in case skip_space r4 of
                                     [] \<Rightarrow> None
                                   | c2 # r5 \<Rightarrow>
                                       if c2 = CHR '','' then
                                         (case parse_members r5 of
                                            None \<Rightarrow> None
                                          | Some (ms, r6) \<Rightarrow> Some (m # ms, r6))
                                       else if c2 = CHR ''}'' then Some ([m], r5)
                                       else None)
                             else None)
                      else None))
          else None)"
  by pat_completeness auto
termination
proof (relation "measure (\<lambda>x. case x of Inl s \<Rightarrow> 2 * length s
                                     | Inr (Inl s) \<Rightarrow> 2 * length s + 1
                                     | Inr (Inr s) \<Rightarrow> 2 * length s + 1)", goal_cases)
  have skip_le: "length (skip_space s) \<le> length s" for s
    by (simp add: skip_space_def length_dropWhile_le)
  have skip_Cons: "length r < length s" if "skip_space s = c # r" for s c r
    using skip_le [of s] that by simp
  have string_shorter: "length r < length s" if "scan_string s = Some (b, r)" for s b r
    using that
  proof (induction s arbitrary: b r rule: scan_string.induct)
    case 1
    then show ?case by simp
  next
    case (2 c cs)
    then show ?case by (fastforce split: if_splits list.splits)
  qed
  {
    case 1
    show ?case by simp
  next
    case 2
    then show ?case by (auto dest!: skip_Cons)
  next
    case 3
    then show ?case by (auto dest!: skip_Cons)
  next
    case 4
    show ?case by simp
  next
    case 5
    then show ?case by (auto dest!: skip_Cons)
  next
    case (6 s x21 x22 x2 x y x21a r2)
    then show ?case
      using skip_le [of r2] by (auto dest!: skip_Cons string_shorter)
  next
    case (7 s x21 x22 x2 x y x21a r2 x2a xa ya xb x21b x22b)
    then show ?case
      using skip_le [of r2] by (auto dest!: skip_Cons string_shorter)
  }
qed

subsection \<open>Numbers\<close>

definition int_of_digits :: "string \<Rightarrow> int" where
  "int_of_digits ds = foldl (\<lambda>r c. r * 10 + (of_char c - of_char CHR ''0'')) 0 ds"

text \<open>
  \<^verbatim>\<open>strconv.ParseInt(s, 10, 64)\<close> on a JSON number literal (which has no plus sign and
  no underscore): an optional minus and digits only, in the range of \<^verbatim>\<open>int64\<close>.
\<close>

definition ParseInt64 :: "string \<Rightarrow> int option" where
  "ParseInt64 s =
     (let neg = (take 1 s = ''-'');
          ds = (if neg then drop 1 s else s);
          i = (if neg then - int_of_digits ds else int_of_digits ds)
      in if ds \<noteq> [] \<and> list_all isDigit ds \<and> - (2 ^ 63) \<le> i \<and> i < 2 ^ 63 then Some i else None)"

text \<open>\<^verbatim>\<open>strconv.ParseUint(s, 10, 64)\<close> on an object key: digits only, below \<open>2 ^ 64\<close>.\<close>

definition ParseUint64 :: "string \<Rightarrow> int option" where
  "ParseUint64 s =
     (if s \<noteq> [] \<and> list_all isDigit s \<and> int_of_digits s < 2 ^ 64
      then Some (int_of_digits s) else None)"

text \<open>
  A number decoded into an \<^verbatim>\<open>interface{}\<close> becomes a \<^verbatim>\<open>float64\<close>, and
  \<^verbatim>\<open>strconv.ParseFloat\<close> fails on a literal exactly when it rounds to an infinity: when
  its magnitude is at least \<open>2 ^ 1024 - 2 ^ 970\<close>, half way from the largest
  \<^verbatim>\<open>float64\<close> to \<open>2 ^ 1024\<close>; \<open>float64_limit\<close> is that number, written out. The
  literal is \<open>m * 10 ^ e\<close> with \<open>m\<close> its digits and \<open>e\<close> its exponent less the
  number of fraction digits.
\<close>

definition float64_limit :: int where
  "float64_limit =
     0xFFFFFFFFFFFFFC00000000000000000000000000000000000000000000000000000000000000000000000000000000000000000000000000000000000000000000000000000000000000000000000000000000000000000000000000000000000000000000000000000000000000000000000000000000000000000000000000"

definition float64_overflow :: "string \<Rightarrow> bool" where
  "float64_overflow lit =
     (let body = (if take 1 lit = ''-'' then drop 1 lit else lit);
          ip = takeWhile isDigit body;
          r1 = dropWhile isDigit body;
          fp = (if take 1 r1 = ''.'' then takeWhile isDigit (drop 1 r1) else []);
          r2 = (if take 1 r1 = ''.'' then dropWhile isDigit (drop 1 r1) else r1);
          ex = drop 1 r2;
          eds = (if take 1 ex = ''-'' \<or> take 1 ex = ''+'' then drop 1 ex else ex);
          e = (if take 1 ex = ''-'' then - int_of_digits eds else int_of_digits eds)
              - int (length fp);
          m = int_of_digits (ip @ fp)
      in if 0 \<le> e then float64_limit \<le> m * 10 ^ nat e
         else float64_limit * 10 ^ nat (- e) \<le> m)"

subsection \<open>Decoders\<close>

text \<open>
  The decoder keeps the first error (\<^verbatim>\<open>saveError\<close>) and goes on decoding; a decoder
  here returns the errors in the order they arise, and \<open>json_Unmarshal\<close> returns the
  first. \<open>errorContext\<close> is the decoder's \<^verbatim>\<open>errorContext\<close>: the name of the struct
  being decoded and the stack of field names that led to it, which
  \<^verbatim>\<open>addErrorContext\<close> writes into an \<^verbatim>\<open>UnmarshalTypeError\<close>.
\<close>

type_synonym errorContext = "string \<times> string list"

type_synonym 'a decoder = "errorContext \<Rightarrow> jnode \<Rightarrow> 'a \<Rightarrow> 'a \<times> go_error list"

fun join_dot :: "string list \<Rightarrow> string" where
  "join_dot [] = []"
| "join_dot [x] = x"
| "join_dot (x # y # ys) = x @ ''.'' @ join_dot (y # ys)"

definition type_error :: "errorContext \<Rightarrow> string \<Rightarrow> string \<Rightarrow> go_error" where
  "type_error ctx v t = UnmarshalTypeError v t (fst ctx) (join_dot (snd ctx))"

text \<open>How an \<^verbatim>\<open>UnmarshalTypeError\<close> names the JSON value that did not fit.\<close>

fun node_kind :: "jnode \<Rightarrow> string" where
  "node_kind NNull = ''null''"
| "node_kind (NBool b) = ''bool''"
| "node_kind (NNumber lit) = ''number''"
| "node_kind (NString s) = ''string''"
| "node_kind (NArray ns) = ''array''"
| "node_kind (NObject ms) = ''object''"

text \<open>
  What an \<^verbatim>\<open>interface{}\<close> holds after decoding: \<^verbatim>\<open>nil\<close>, a \<^verbatim>\<open>bool\<close>, a \<^verbatim>\<open>float64\<close>,
  a \<^verbatim>\<open>string\<close>, a \<^verbatim>\<open>[]interface{}\<close> or a \<^verbatim>\<open>map[string]interface{}\<close>. A
  \<^verbatim>\<open>float64\<close> is represented by the literal it was read from (Go keeps the nearest
  \<^verbatim>\<open>float64\<close>); a map is an association list with one entry per key.
\<close>

datatype json =
    JNull | JBool bool | JNumber string | JString string
  | JArray "json list"
  | JObject "(string \<times> json) list"

fun decode_interface :: "errorContext \<Rightarrow> jnode \<Rightarrow> json \<times> go_error list" where
  "decode_interface ctx NNull = (JNull, [])"
| "decode_interface ctx (NBool b) = (JBool b, [])"
| "decode_interface ctx (NString s) = (JString s, [])"
| "decode_interface ctx (NNumber lit) =
     (if float64_overflow lit then (JNull, [type_error ctx (''number '' @ lit) ''float64''])
      else (JNumber lit, []))"
| "decode_interface ctx (NArray ns) =
     (let rs = map (decode_interface ctx) ns in (JArray (map fst rs), concat (map snd rs)))"
| "decode_interface ctx (NObject ms) =
     (let rs = map (\<lambda>(k, raw, n). (k, decode_interface ctx n)) ms in
      (JObject (foldl (\<lambda>m (k, v, es). AList.update k v m) [] rs),
       concat (map (\<lambda>(k, v, es). es) rs)))"

text \<open>A signed 64-bit integer (\<^verbatim>\<open>int\<close>, \<^verbatim>\<open>int64\<close>); \<open>tname\<close> names the Go type.\<close>

definition decode_int64 :: "string \<Rightarrow> (64 word) decoder" where
  "decode_int64 tname ctx n v =
     (case n of
        NNull \<Rightarrow> (v, [])
      | NNumber lit \<Rightarrow>
          (case ParseInt64 lit of
             Some i \<Rightarrow> (word_of_int i, [])
           | None \<Rightarrow> (v, [type_error ctx (''number '' @ lit) tname]))
      | _ \<Rightarrow> (v, [type_error ctx (node_kind n) tname]))"

definition decode_string :: "string decoder" where
  "decode_string ctx n v =
     (case n of
        NNull \<Rightarrow> (v, [])
      | NString s \<Rightarrow> (s, [])
      | _ \<Rightarrow> (v, [type_error ctx (node_kind n) ''string'']))"

text \<open>
  A Go map is \<open>None\<close> when \<^verbatim>\<open>nil\<close>. Decoding an object into a map keeps the entries
  the map has, and decodes each value afresh; \<^verbatim>\<open>null\<close> makes the map \<^verbatim>\<open>nil\<close>.
\<close>

type_synonym map_string_interface = "(string \<times> json) list option"

definition decode_map_string_interface :: "map_string_interface decoder" where
  "decode_map_string_interface ctx n v =
     (case n of
        NNull \<Rightarrow> (None, [])
      | NObject ms \<Rightarrow>
          (let (m', es') =
             foldl (\<lambda>(m, es) (k, raw, n'). let (x, es') = decode_interface ctx n' in
                      (AList.update k x m, es @ es'))
               (case v of None \<Rightarrow> [] | Some m \<Rightarrow> m, []) ms
           in (Some m', es'))
      | _ \<Rightarrow> (v, [type_error ctx (node_kind n) ''map[string]interface {}'']))"

text \<open>
  \<^verbatim>\<open>map[uint]map[string]interface{}\<close>: a key that is not a \<^verbatim>\<open>uint\<close> is an error, and
  its entry is dropped.
\<close>

type_synonym map_uint_map = "(64 word \<times> map_string_interface) list option"

definition decode_map_uint_map :: "map_uint_map decoder" where
  "decode_map_uint_map ctx n v =
     (case n of
        NNull \<Rightarrow> (None, [])
      | NObject ms \<Rightarrow>
          (let (m', es') =
             foldl (\<lambda>(m, es) (k, raw, n').
                      let (x, es') = decode_map_string_interface ctx n' None in
                      (case ParseUint64 k of
                         None \<Rightarrow> (m, es @ es' @ [type_error ctx (''number '' @ k) ''uint''])
                       | Some u \<Rightarrow> (AList.update (word_of_int u) x m, es @ es')))
               (case v of None \<Rightarrow> [] | Some m \<Rightarrow> m, []) ms
           in (Some m', es'))
      | _ \<Rightarrow> (v, [type_error ctx (node_kind n) ''map[uint]map[string]interface {}'']))"

text \<open>
  A key selects the field whose name it equals, or else the first field whose name it
  equals up to case (\<^verbatim>\<open>foldName\<close>). \<open>foldRune\<close> is exact on the two runes beyond ASCII
  that fold to an ASCII letter, U+017F and U+212A; it leaves the other runes beyond ASCII
  as they are, which they are not in Go, but no such rune folds to an ASCII one, and the
  field names compared with are ASCII.
\<close>

definition foldRune :: "nat \<Rightarrow> nat" where
  "foldRune r = (if r = 0x17F then 0x53 else if r = 0x212A then 0x4B else r)"

function foldName :: "string \<Rightarrow> string" where
  "foldName [] = []"
| "foldName (c # cs) =
     (if (of_char c :: nat) < 0x80 then
        (if CHR ''a'' \<le> c \<and> c \<le> CHR ''z''
         then ''ABCDEFGHIJKLMNOPQRSTUVWXYZ'' ! (of_char c - of_char CHR ''a'')
         else c) # foldName cs
      else (let (r, n) = utf8_DecodeRune (c # cs) in
            utf8_EncodeRune (foldRune r) @ foldName (drop (n - 1) cs)))"
  by pat_completeness auto
termination
  by (relation "measure length") auto

definition find_field :: "string list \<Rightarrow> string \<Rightarrow> string option" where
  "find_field names key =
     (case find (\<lambda>f. f = key) names of
        Some f \<Rightarrow> Some f
      | None \<Rightarrow> find (\<lambda>f. foldName f = foldName key) names)"

text \<open>
  A struct named \<open>sname\<close>, of the type named \<open>tname\<close>, with the JSON field names
  \<open>names\<close>: the members of an object are decoded in input order, each into the field its
  key selects (a key that selects none is skipped); \<^verbatim>\<open>null\<close> changes nothing.
  \<open>decode_field\<close> gets the field's name, the bytes of the member's value and its tree.
\<close>

definition decode_struct ::
  "string \<Rightarrow> string \<Rightarrow> string list
     \<Rightarrow> (errorContext \<Rightarrow> string \<Rightarrow> string \<Rightarrow> jnode \<Rightarrow> 'a \<Rightarrow> 'a \<times> go_error list)
     \<Rightarrow> 'a decoder" where
  "decode_struct sname tname names decode_field ctx n v =
     (case n of
        NNull \<Rightarrow> (v, [])
      | NObject ms \<Rightarrow>
          foldl (\<lambda>(v, es) (k, raw, n').
                   case find_field names k of
                     None \<Rightarrow> (v, es)
                   | Some f \<Rightarrow> (let (v', es') = decode_field (sname, snd ctx @ [f]) f raw n' v
                                in (v', es @ es')))
            (v, []) ms
      | _ \<Rightarrow> (v, [type_error ctx (node_kind n) tname]))"

definition phasePanicMsg :: string where
  "phasePanicMsg = ''JSON decoder out of sync - data changing underfoot?''"

text \<open>
  \<^verbatim>\<open>json.Unmarshal(data, v)\<close> for a destination whose type is decoded by \<open>decode\<close>:
  \<open>v\<close> is the value the pointer points to, \<open>None\<close> for a \<^verbatim>\<open>nil\<close> destination. The
  result is the destination afterwards and the error. A syntax error leaves the
  destination as it was; a value of the wrong type is skipped, the rest is decoded, and
  the first such error is returned. (The scanner accepted \<open>data\<close> where the tree is
  built, so the parser does not fail there; Go panics with \<open>phasePanicMsg\<close> if the two
  passes disagree.)
\<close>

definition json_Unmarshal :: "'a decoder \<Rightarrow> string \<Rightarrow> 'a option \<Rightarrow> 'a option \<times> go_error option" where
  "json_Unmarshal decode data v =
     (case checkValid data of
        Some e \<Rightarrow> (v, Some e)
      | None \<Rightarrow>
          (case v of
             None \<Rightarrow> (None, Some (InvalidUnmarshalError []))
           | Some d \<Rightarrow>
               (case parse_value data of
                  None \<Rightarrow> (v, Some (ErrorString phasePanicMsg))
                | Some (n, rest) \<Rightarrow>
                    (let (d', es) = decode ([], []) n d in
                     (Some d', case es of [] \<Rightarrow> None | e # _ \<Rightarrow> Some e)))))"

section \<open>encoding/json: encoding\<close>

text \<open>
  What \<^verbatim>\<open>json.Marshal\<close> is given, an \<^verbatim>\<open>interface{}\<close>: \<open>GoNil\<close> is the \<^verbatim>\<open>nil\<close>
  interface value; the other constructors are values of a dynamic type. A slice, a map
  and a pointer can be \<^verbatim>\<open>nil\<close> (\<open>None\<close>) without the interface holding them being
  \<^verbatim>\<open>nil\<close>. \<open>GoInt\<close> is an \<^verbatim>\<open>int\<close> or \<^verbatim>\<open>int64\<close>; the elements of a slice and the values of
  a map (with string keys) and of a struct are values again (\<open>GoNil\<close> for a \<^verbatim>\<open>nil\<close>
  element of interface type); a struct lists its exported fields by JSON name in
  declaration order; \<open>GoUnsupported t\<close> is a value of a type named \<open>t\<close> that the
  encoder rejects (a channel, a function, a complex number). Floating-point numbers are
  not represented.
\<close>

datatype go_value =
    GoNil
  | GoBool bool
  | GoInt "64 word"
  | GoString string
  | GoSlice "go_value list option"
  | GoMap "(string \<times> go_value) list option"
  | GoPtr "go_value option"
  | GoStruct "(string \<times> go_value) list"
  | GoUnsupported string

function digits :: "int \<Rightarrow> string" where
  "digits n =
     (if n < 10 then [''0123456789'' ! nat n]
      else digits (n div 10) @ [''0123456789'' ! nat (n mod 10)])"
  by pat_completeness auto
termination
  by (relation "measure nat") auto

text \<open>\<^verbatim>\<open>strconv.FormatInt(i, 10)\<close>.\<close>

definition FormatInt :: "int \<Rightarrow> string" where
  "FormatInt i = (if i < 0 then ''-'' @ digits (- i) else digits i)"

text \<open>
  The string encoder with HTML escaping, as \<^verbatim>\<open>json.Marshal\<close> runs it: \<open>htmlSafe\<close> is
  \<^verbatim>\<open>htmlSafeSet\<close>; the other ASCII bytes are escaped; a byte that is not well-formed
  UTF-8 is written as the escape of U+FFFD, and U+2028 and U+2029 are escaped.
\<close>

definition htmlSafe :: "char \<Rightarrow> bool" where
  "htmlSafe c =
     (0x20 \<le> (of_char c :: nat) \<and> (of_char c :: nat) < 0x80
      \<and> c \<notin> set [CHR 0x22, CHR ''&'', CHR ''<'', CHR ''>'', CHR 0x5C])"

definition escape_byte :: "char \<Rightarrow> string" where
  "escape_byte c =
     (if c = CHR 0x5C \<or> c = CHR 0x22 then [CHR 0x5C, c]
      else if c = CHR 0x08 then [CHR 0x5C, CHR ''b'']
      else if c = CHR 0x0C then [CHR 0x5C, CHR ''f'']
      else if c = CHR 0x0A then [CHR 0x5C, CHR ''n'']
      else if c = CHR 0x0D then [CHR 0x5C, CHR ''r'']
      else if c = CHR 0x09 then [CHR 0x5C, CHR ''t'']
      else [CHR 0x5C, CHR ''u'', CHR ''0'', CHR ''0'', lowerhex (of_char c div 16), lowerhex (of_char c)])"

function appendString_body :: "string \<Rightarrow> string" where
  "appendString_body [] = []"
| "appendString_body (c # cs) =
     (if (of_char c :: nat) < 0x80 then
        (if htmlSafe c then [c] else escape_byte c) @ appendString_body cs
      else (let (r, size) = utf8_DecodeRune (c # cs) in
            if r = RuneError \<and> size = 1 then
              [CHR 0x5C, CHR ''u'', CHR ''f'', CHR ''f'', CHR ''f'', CHR ''d''] @ appendString_body cs
            else if r = 0x2028 \<or> r = 0x2029 then
              [CHR 0x5C, CHR ''u'', CHR ''2'', CHR ''0'', CHR ''2'', lowerhex r]
              @ appendString_body (drop (size - 1) cs)
            else c # take (size - 1) cs @ appendString_body (drop (size - 1) cs)))"
  by pat_completeness auto
termination
  by (relation "measure length") auto

definition appendString :: "string \<Rightarrow> string" where
  "appendString s = [CHR 0x22] @ appendString_body s @ [CHR 0x22]"

fun join_comma :: "string list \<Rightarrow> string" where
  "join_comma [] = []"
| "join_comma [x] = x"
| "join_comma (x # y # ys) = x @ '','' @ join_comma (y # ys)"

text \<open>The encodings of the parts of a value, or the first error among them.\<close>

fun first_error :: "(go_error + 'a) list \<Rightarrow> go_error + 'a list" where
  "first_error [] = Inr []"
| "first_error (Inl e # rs) = Inl e"
| "first_error (Inr x # rs) = (case first_error rs of Inl e \<Rightarrow> Inl e | Inr xs \<Rightarrow> Inr (x # xs))"

definition encode_object :: "(string \<times> (go_error + string)) list \<Rightarrow> go_error + string" where
  "encode_object kvs =
     (case first_error (map snd kvs) of
        Inl e \<Rightarrow> Inl e
      | Inr vs \<Rightarrow>
          Inr (''{'' @ join_comma (map (\<lambda>(k, v). appendString k @ '':'' @ v) (zip (map fst kvs) vs))
               @ ''}''))"

text \<open>
  \<^verbatim>\<open>json.Marshal\<close>: compact, no newline at the end; a map is written with its keys
  sorted bytewise; \<^verbatim>\<open>nil\<close> of any kind is \<^verbatim>\<open>null\<close>.
\<close>

fun json_Marshal :: "go_value \<Rightarrow> go_error + string" where
  "json_Marshal GoNil = Inr ''null''"
| "json_Marshal (GoBool b) = Inr (if b then ''true'' else ''false'')"
| "json_Marshal (GoInt i) = Inr (FormatInt (sint i))"
| "json_Marshal (GoString s) = Inr (appendString s)"
| "json_Marshal (GoSlice None) = Inr ''null''"
| "json_Marshal (GoSlice (Some xs)) =
     (case first_error (map json_Marshal xs) of
        Inl e \<Rightarrow> Inl e
      | Inr vs \<Rightarrow> Inr (''['' @ join_comma vs @ '']''))"
| "json_Marshal (GoMap None) = Inr ''null''"
| "json_Marshal (GoMap (Some kvs)) =
     encode_object (sort_key fst (map (\<lambda>(k, v). (k, json_Marshal v)) kvs))"
| "json_Marshal (GoPtr None) = Inr ''null''"
| "json_Marshal (GoPtr (Some v)) = json_Marshal v"
| "json_Marshal (GoStruct fs) = encode_object (map (\<lambda>(k, v). (k, json_Marshal v)) fs)"
| "json_Marshal (GoUnsupported t) = Inl (UnsupportedTypeError t)"

section \<open>The process\<close>

text \<open>
  A call either returns, or the process exits (\<^verbatim>\<open>log.Fatal\<close> ends in \<^verbatim>\<open>os.Exit(1)\<close>),
  or the goroutine panics, or the process is killed by a signal, named in \<open>Killed\<close>.
  Each outcome carries the state of the process at that point.
\<close>

datatype ('a, 's) outcome = Returns 'a 's | Exits int 's | Panics string 's | Killed string 's

text \<open>
  How a write to standard output fails once the stream takes no more bytes.
  \<^item> \<open>Fails e\<close>: \<^verbatim>\<open>os.Stdout.Write\<close> returns the error \<open>e\<close> (the descriptor is closed,
    the device is full; also a broken pipe in a program that has asked for \<^verbatim>\<open>SIGPIPE\<close>
    with \<^verbatim>\<open>signal.Notify\<close> or ignores it).
  \<^item> \<open>BrokenPipe\<close>: the reader of the pipe is gone and \<^verbatim>\<open>SIGPIPE\<close> has its default
    disposition, which the package does not change. The system call fails with
    \<^verbatim>\<open>EPIPE\<close>, and for the descriptors 1 and 2 \<^verbatim>\<open>os.File.Write\<close> then raises
    \<^verbatim>\<open>SIGPIPE\<close> (\<^verbatim>\<open>epipecheck\<close>): the process dies inside the write, which does not
    return.
\<close>

datatype write_fault = Fails go_error | BrokenPipe

text \<open>
  \<open>'args process\<close> is what the package reads and writes of its process; \<open>'args\<close> is
  the type of the record the package-level variable \<^verbatim>\<open>args\<close> points to.
  \<^item> \<open>os_Args\<close>: the argument vector \<^verbatim>\<open>os.Args\<close>, the program name first.
  \<^item> \<open>environ\<close>: the environment, as \<^verbatim>\<open>os.LookupEnv\<close> reports it.
  \<^item> \<open>args\<close>: the package-level variable: \<open>None\<close> for \<^verbatim>\<open>nil\<close>, otherwise the record
    the pointer points to. The package never writes through the pointer once
    \<^verbatim>\<open>GetArgs\<close> has returned, so the pointer and the record it points to are not told
    apart.
  \<^item> \<open>stdout\<close>: the bytes written to standard output so far.
  \<^item> \<open>stdout_limit\<close>: \<open>Some (n, f)\<close> when standard output takes \<open>n\<close> more bytes and
    then fails every write in the way \<open>f\<close> (a closed descriptor has \<open>n = 0\<close>);
    \<open>None\<close> when it takes every write.
  \<^item> \<open>log_output\<close>: the messages given to the standard logger (it writes each to
    standard error after the date and time, which are left out).
\<close>

record 'args process =
  os_Args :: "string list"
  environ :: "string \<rightharpoonup> string"
  args :: "'args option"
  stdout :: string
  stdout_limit :: "(nat \<times> write_fault) option"
  log_output :: "string list"

text \<open>\<^verbatim>\<open>os.Getenv\<close>: the value, or the empty string when the variable is not set.\<close>

definition os_Getenv :: "'args process \<Rightarrow> string \<Rightarrow> string" where
  "os_Getenv w key = (case environ w key of None \<Rightarrow> [] | Some v \<Rightarrow> v)"

text \<open>
  \<^verbatim>\<open>fmt.Fprint(os.Stdout, s)\<close> for one string operand: the bytes of \<open>s\<close> and nothing
  else. A write that fails leaves on the stream the bytes that were taken; it returns
  its error, or, on a broken pipe, the process is killed by \<^verbatim>\<open>SIGPIPE\<close>.
\<close>

definition Fprint_Stdout ::
  "string \<Rightarrow> 'args process \<Rightarrow> (go_error option, 'args process) outcome" where
  "Fprint_Stdout s w =
     (case stdout_limit w of
        None \<Rightarrow> Returns None (w\<lparr>stdout := stdout w @ s\<rparr>)
      | Some (n, f) \<Rightarrow>
          if length s \<le> n
          then Returns None (w\<lparr>stdout := stdout w @ s, stdout_limit := Some (n - length s, f)\<rparr>)
          else (case f of
                  Fails e \<Rightarrow>
                    Returns (Some e) (w\<lparr>stdout := stdout w @ take n s, stdout_limit := Some (0, f)\<rparr>)
                | BrokenPipe \<Rightarrow>
                    Killed ''SIGPIPE'' (w\<lparr>stdout := stdout w @ take n s, stdout_limit := Some (0, f)\<rparr>)))"

text \<open>Standard output takes \<open>n\<close> more bytes.\<close>

definition stdout_takes :: "'args process \<Rightarrow> nat \<Rightarrow> bool" where
  "stdout_takes w n = (case stdout_limit w of None \<Rightarrow> True | Some (k, e) \<Rightarrow> n \<le> k)"

text \<open>The process after standard output took the bytes \<open>s\<close>.\<close>

definition wrote :: "string \<Rightarrow> 'args process \<Rightarrow> 'args process" where
  "wrote s w =
     w\<lparr>stdout := stdout w @ s,
       stdout_limit := map_option (\<lambda>(n, e). (n - length s, e)) (stdout_limit w)\<rparr>"

text \<open>\<^verbatim>\<open>log.Fatal(e)\<close>: the message goes to the logger, and the process exits with 1.\<close>

definition log_Fatal :: "go_error \<Rightarrow> 'args process \<Rightarrow> ('a, 'args process) outcome" where
  "log_Fatal e w = Exits 1 (w\<lparr>log_output := log_output w @ [Error e]\<rparr>)"

definition nil_dereference :: string where
  "nil_dereference = ''runtime error: invalid memory address or nil pointer dereference''"

section \<open>actionsdk\<close>

subsection \<open>The data model\<close>

text \<open>
  The structs of \<^verbatim>\<open>actionsdk.go\<close>, field by field. \<^verbatim>\<open>int\<close> and \<^verbatim>\<open>int64\<close> are
  \<open>64 word\<close>, read as signed; \<^verbatim>\<open>json.RawMessage\<close> is the bytes it holds (empty when
  \<^verbatim>\<open>nil\<close>); the two map types are those of the decoders above.
\<close>

record Event =
  Name :: string
  Data :: map_string_interface
  User :: map_string_interface
  ID :: string
  Timestamp :: "64 word"
  Version :: string

record EventWrapper =
  Event :: Event

record Baggage =
  EventWrapper :: EventWrapper
  Actions :: map_uint_map

record Args =
  ArgsVersion :: "64 word"
  Metadata :: string
  Baggage :: Baggage

text \<open>\<^verbatim>\<open>Args{}\<close>, the zero value.\<close>

definition Event_zero :: Event where
  "Event_zero = \<lparr>Name = [], Data = None, User = None, ID = [], Timestamp = 0, Version = []\<rparr>"

definition Args_zero :: Args where
  "Args_zero = \<lparr>ArgsVersion = 0, Metadata = [],
     Baggage = \<lparr>EventWrapper = \<lparr>Event = Event_zero\<rparr>, Actions = None\<rparr>\<rparr>"

text \<open>
  What \<^verbatim>\<open>json.Unmarshal\<close> does for these types, read off their declarations: the JSON
  names are the field names, or the names of the struct tags (\<^verbatim>\<open>WorkspaceEvent\<close>,
  \<^verbatim>\<open>name\<close>, \<^verbatim>\<open>data\<close>, \<^verbatim>\<open>user\<close>, \<^verbatim>\<open>id\<close>, \<^verbatim>\<open>ts\<close>, \<^verbatim>\<open>v\<close>; \<^verbatim>\<open>omitempty\<close> matters to
  encoding only).
\<close>

definition decode_Event_field ::
  "errorContext \<Rightarrow> string \<Rightarrow> string \<Rightarrow> jnode \<Rightarrow> Event \<Rightarrow> Event \<times> go_error list" where
  "decode_Event_field ctx f raw n v =
     (if f = ''name'' then (let (x, es) = decode_string ctx n (Name v) in (v\<lparr>Name := x\<rparr>, es))
      else if f = ''data'' then
        (let (x, es) = decode_map_string_interface ctx n (Data v) in (v\<lparr>Data := x\<rparr>, es))
      else if f = ''user'' then
        (let (x, es) = decode_map_string_interface ctx n (User v) in (v\<lparr>User := x\<rparr>, es))
      else if f = ''id'' then (let (x, es) = decode_string ctx n (ID v) in (v\<lparr>ID := x\<rparr>, es))
      else if f = ''ts'' then
        (let (x, es) = decode_int64 ''int64'' ctx n (Timestamp v) in (v\<lparr>Timestamp := x\<rparr>, es))
      else (let (x, es) = decode_string ctx n (Version v) in (v\<lparr>Version := x\<rparr>, es)))"

definition decode_Event :: "Event decoder" where
  "decode_Event =
     decode_struct ''Event'' ''actionsdk.Event'' [''name'', ''data'', ''user'', ''id'', ''ts'', ''v'']
       decode_Event_field"

definition decode_EventWrapper :: "EventWrapper decoder" where
  "decode_EventWrapper =
     decode_struct ''EventWrapper'' ''actionsdk.EventWrapper'' [''Event'']
       (\<lambda>ctx f raw n v. let (x, es) = decode_Event ctx n (Event v) in (v\<lparr>Event := x\<rparr>, es))"

definition decode_Baggage_field ::
  "errorContext \<Rightarrow> string \<Rightarrow> string \<Rightarrow> jnode \<Rightarrow> Baggage \<Rightarrow> Baggage \<times> go_error list" where
  "decode_Baggage_field ctx f raw n v =
     (if f = ''WorkspaceEvent'' then
        (let (x, es) = decode_EventWrapper ctx n (EventWrapper v) in (v\<lparr>EventWrapper := x\<rparr>, es))
      else (let (x, es) = decode_map_uint_map ctx n (Actions v) in (v\<lparr>Actions := x\<rparr>, es)))"

definition decode_Baggage :: "Baggage decoder" where
  "decode_Baggage =
     decode_struct ''Baggage'' ''actionsdk.Baggage'' [''WorkspaceEvent'', ''Actions'']
       decode_Baggage_field"

definition decode_Args_field ::
  "errorContext \<Rightarrow> string \<Rightarrow> string \<Rightarrow> jnode \<Rightarrow> Args \<Rightarrow> Args \<times> go_error list" where
  "decode_Args_field ctx f raw n v =
     (if f = ''ArgsVersion'' then
        (let (x, es) = decode_int64 ''int'' ctx n (ArgsVersion v) in (v\<lparr>ArgsVersion := x\<rparr>, es))
      else if f = ''Metadata'' then (v\<lparr>Metadata := raw\<rparr>, [])
      else (let (x, es) = decode_Baggage ctx n (Baggage v) in (v\<lparr>Baggage := x\<rparr>, es)))"

definition decode_Args :: "Args decoder" where
  "decode_Args =
     decode_struct ''Args'' ''actionsdk.Args'' [''ArgsVersion'', ''Metadata'', ''Baggage'']
       decode_Args_field"

subsection \<open>WriteError\<close>

text \<open>
  \<open>None\<close> is a \<^verbatim>\<open>nil\<close> error: \<^verbatim>\<open>err.Error()\<close> panics on it. The value marshalled is
  \<^verbatim>\<open>map[string]interface{}{"error": err.Error()}\<close>. The function goes on after
  \<^verbatim>\<open>fmt.Fprint\<close> only if that call returns.
\<close>

definition WriteError :: "go_error option \<Rightarrow> Args process \<Rightarrow> (unit, Args process) outcome" where
  "WriteError e w =
     (case e of
        None \<Rightarrow> Panics nil_dereference w
      | Some e \<Rightarrow>
          (case json_Marshal (GoMap (Some [(''error'', GoString (Error e))])) of
             Inl e' \<Rightarrow> log_Fatal (Errorf_w ''unable to marshal error: '' e') w
           | Inr byt \<Rightarrow>
               (case Fprint_Stdout byt w of
                  Returns (Some e') w' \<Rightarrow> log_Fatal (Errorf_w ''unable to write error: '' e') w'
                | Returns None w' \<Rightarrow> Returns () w'
                | Exits c w' \<Rightarrow> Exits c w'
                | Panics m w' \<Rightarrow> Panics m w'
                | Killed sg w' \<Rightarrow> Killed sg w')))"

subsection \<open>WriteResult\<close>

definition WriteResult ::
  "go_value \<Rightarrow> Args process \<Rightarrow> (go_error option, Args process) outcome" where
  "WriteResult i w =
     (if i = GoNil then Fprint_Stdout ''{}'' w
      else (case json_Marshal i of
              Inl e \<Rightarrow> Returns (Some (Errorf_w ''error writing output: '' e)) w
            | Inr byt \<Rightarrow> Fprint_Stdout byt w))"

subsection \<open>GetSecret\<close>

definition GetSecret :: "string \<Rightarrow> Args process \<Rightarrow> string \<times> go_error option" where
  "GetSecret str w =
     (let secret = os_Getenv w str in
      if secret \<noteq> [] then (secret, None)
      else ([], Some (Errorf_s ''secret not found: '' str)))"

subsection \<open>GetArgs\<close>

text \<open>
  The result is the pair the Go function returns and the process afterwards. The
  assignment \<^verbatim>\<open>args = &Args{}\<close> comes before \<^verbatim>\<open>json.Unmarshal\<close>, which decodes into the
  record \<^verbatim>\<open>args\<close> points to: whatever \<^verbatim>\<open>json.Unmarshal\<close> leaves in the record is what
  the variable holds afterwards, also when it returns an error.
\<close>

definition GetArgs :: "Args process \<Rightarrow> (Args option \<times> go_error option) \<times> Args process" where
  "GetArgs w =
     (case args w of
        Some a \<Rightarrow> ((Some a, None), w)
      | None \<Rightarrow>
          if length (os_Args w) < 2 then ((None, Some (ErrorString ''no arguments present'')), w)
          else
            (let (a, e) = json_Unmarshal decode_Args (os_Args w ! 1) (Some Args_zero);
                 w' = w\<lparr>args := a\<rparr>
             in case e of
                  Some e \<Rightarrow> ((None, Some (Errorf_s ''unable to parse arguments: '' (Error e))), w')
                | None \<Rightarrow> ((a, None), w')))"

subsection \<open>GetMetadata\<close>

text \<open>
  \<open>dest\<close> is what the caller's pointer points to (\<open>None\<close> for a \<^verbatim>\<open>nil\<close> destination)
  and \<open>decode\<close> the decoder of its type; the result holds the destination afterwards.
  \<^verbatim>\<open>args.Metadata\<close> dereferences the pointer \<^verbatim>\<open>GetArgs\<close> returned.
\<close>

definition GetMetadata ::
  "'d decoder \<Rightarrow> 'd option \<Rightarrow> Args process \<Rightarrow> ('d option \<times> go_error option, Args process) outcome" where
  "GetMetadata decode dest w =
     (case GetArgs w of
        ((a, Some e), w') \<Rightarrow> Returns (dest, Some e) w'
      | ((None, None), w') \<Rightarrow> Panics nil_dereference w'
      | ((Some a, None), w') \<Rightarrow> Returns (json_Unmarshal decode (Metadata a) dest) w')"

text \<open>
  A destination type for examples: \<^verbatim>\<open>type Config struct { X int }\<close> of package
  \<^verbatim>\<open>main\<close>.
\<close>

record Config =
  X :: "64 word"

definition decode_Config :: "Config decoder" where
  "decode_Config =
     decode_struct ''Config'' ''main.Config'' [''X'']
       (\<lambda>ctx f raw n v. let (x, es) = decode_int64 ''int'' ctx n (X v) in (v\<lparr>X := x\<rparr>, es))"

text \<open>
  The payload of the end-to-end example, the record it decodes to, a payload whose
  metadata does not fit \<open>Config\<close>, and a process just started with given arguments.
\<close>

definition example_payload :: string where
  \<open>example_payload =
     ''{"ArgsVersion":1,"Metadata":{"x":5},"Baggage":{"WorkspaceEvent":''
     @ ''{"Event":{"name":"signup","data":{}}},"Actions":{}}}''\<close>

definition example_Args :: Args where
  \<open>example_Args =
     \<lparr>ArgsVersion = 1,
      Metadata = ''{"x":5}'',
      Baggage = \<lparr>EventWrapper = \<lparr>Event = Event_zero\<lparr>Name := ''signup'', Data := Some []\<rparr>\<rparr>,
                 Actions = Some []\<rparr>\<rparr>\<close>

definition mismatch_payload :: string where
  \<open>mismatch_payload = ''{"ArgsVersion":1,"Metadata":{"x":true}}''\<close>

definition started :: "string list \<Rightarrow> Args process" where
  "started argv =
     \<lparr>os_Args = argv, environ = Map.empty, args = None, stdout = [], stdout_limit = None,
      log_output = []\<rparr>"

section \<open>Facts about the library model\<close>

lemma float64_limit_eq: "float64_limit = 2 ^ 1024 - 2 ^ 970"
  by (simp add: float64_limit_def)

lemma Fprint_Stdout_takes:
  "stdout_takes w (length s) \<Longrightarrow> Fprint_Stdout s w = Returns None (wrote s w)"
  by (cases "stdout_limit w") (auto simp: Fprint_Stdout_def stdout_takes_def wrote_def)




text \<open>The error envelope always marshals: a map with one string key and a string value.\<close>

lemma Marshal_error_envelope:
  \<open>json_Marshal (GoMap (Some [(''error'', GoString m)])) = Inr (''{"error":'' @ appendString m @ ''}'')\<close>
  by (simp add: encode_object_def appendString_def htmlSafe_def)

lemma Marshal_a_1: \<open>json_Marshal (GoMap (Some [(''a'', GoInt 1)])) = Inr ''{"a":1}''\<close>
  by code_simp

lemma appendString_secret_not_found:
  \<open>appendString ''secret not found: FOO'' = ''"secret not found: FOO"''\<close>
  by code_simp

lemma Unmarshal_not_json:
  \<open>json_Unmarshal decode_Args ''not json'' (Some Args_zero)
     = (Some Args_zero,
        Some (SyntaxError (''invalid character '' @ [CHR 0x27] @ ''o'' @ [CHR 0x27]
                @ '' in literal null (expecting '' @ [CHR 0x27] @ ''u'' @ [CHR 0x27] @ '')'') 2))\<close>
  by code_simp

lemma Unmarshal_example_payload:
  "json_Unmarshal decode_Args example_payload (Some Args_zero) = (Some example_Args, None)"
  by code_simp

lemma Unmarshal_example_Metadata:
  "json_Unmarshal decode_Config (Metadata example_Args) (Some \<lparr>X = 0\<rparr>) = (Some \<lparr>X = 5\<rparr>, None)"
  by code_simp

lemma Unmarshal_mismatch_payload:
  \<open>json_Unmarshal decode_Args mismatch_payload (Some Args_zero)
     = (Some (Args_zero\<lparr>ArgsVersion := 1, Metadata := ''{"x":true}''\<rparr>), None)\<close>
  by code_simp

lemma Unmarshal_mismatch_Metadata:
  \<open>json_Unmarshal decode_Config ''{"x":true}'' (Some \<lparr>X = 0\<rparr>)
     = (Some \<lparr>X = 0\<rparr>, Some (UnmarshalTypeError ''bool'' ''int'' ''Config'' ''X''))\<close>
  by code_simp

text \<open>
  The model on a few inputs: a truncated literal is reported at the end of input with
  the space the scanner feeds itself there; bytes after the value are an error;
  \<^verbatim>\<open>null\<close> decodes into a struct without changing it; a member of the wrong type is
  an error, and the members after it are still decoded; the encoder escapes \<^verbatim>\<open><\<close>,
  sorts the keys of a map and writes no space.
\<close>

lemma checkValid_examples:
  \<open>checkValid ''tru''
     = Some (SyntaxError (''invalid character '' @ [CHR 0x27] @ '' '' @ [CHR 0x27]
               @ '' in literal true (expecting '' @ [CHR 0x27] @ ''e'' @ [CHR 0x27] @ '')'') 3)\<close>
  \<open>checkValid ''[1,2'' = Some (SyntaxError ''unexpected end of JSON input'' 4)\<close>
  \<open>checkValid ''{"a":1} x''
     = Some (SyntaxError (''invalid character '' @ [CHR 0x27] @ ''x'' @ [CHR 0x27]
               @ '' after top-level value'') 9)\<close>
  \<open>checkValid '' {"a":[1,-2.5e3,"x",null,true]} '' = None\<close>
  by code_simp+

lemma Unmarshal_examples:
  \<open>json_Unmarshal decode_Args ''null'' (Some Args_zero) = (Some Args_zero, None)\<close>
  \<open>json_Unmarshal decode_Args ''{"ArgsVersion":"1","Metadata":[1, 2]}'' (Some Args_zero)
     = (Some (Args_zero\<lparr>Metadata := ''[1, 2]''\<rparr>),
        Some (UnmarshalTypeError ''string'' ''int'' ''Args'' ''ArgsVersion''))\<close>
  by code_simp+

lemma Marshal_example:
  \<open>json_Marshal (GoSlice (Some [GoString ''a<b'', GoInt (- 12), GoBool True, GoNil,
       GoMap (Some [(''b'', GoInt 2), (''a'', GoInt 1)])]))
     = Inr (''["a'' @ [CHR 0x5C] @ ''u003cb",-12,true,null,{"a":1,"b":2}]'')\<close>
  by code_simp

text \<open>\<open>GetArgs\<close> returns a record or an error, never both and never neither.\<close>

lemma GetArgs_result:
  "(\<exists>a w'. GetArgs w = ((Some a, None), w')) \<or> (\<exists>e w'. GetArgs w = ((None, Some e), w'))"
proof (cases "args w")
  case (Some a)
  then show ?thesis by (simp add: GetArgs_def)
next
  case None
  show ?thesis
  proof (cases "length (os_Args w) < 2")
    case True
    with None show ?thesis by (simp add: GetArgs_def)
  next
    case False
    obtain a e where u: "json_Unmarshal decode_Args (os_Args w ! 1) (Some Args_zero) = (a, e)"
      by (cases "json_Unmarshal decode_Args (os_Args w ! 1) (Some Args_zero)")
    have "a \<noteq> None" using u
      by (auto simp: json_Unmarshal_def split: option.splits prod.splits)
    with None False u show ?thesis
      by (cases e) (auto simp: GetArgs_def)
  qed
qed

lemma GetMetadata_never_panics: "GetMetadata decode dest w \<noteq> Panics m w'"
  using GetArgs_result [of w] by (auto simp: GetMetadata_def)

section \<open>Properties of actionsdk\<close>

text \<open>
  What the package-level variable holds after a call that found it \<^verbatim>\<open>nil\<close>: it stays
  \<^verbatim>\<open>nil\<close> when the argument is missing, and otherwise it points to whatever
  \<^verbatim>\<open>json.Unmarshal\<close> left in the fresh record, whether the parse failed or not.
\<close>

lemma GetArgs_variable_afterwards:
  "args w = None \<Longrightarrow>
     args (snd (GetArgs w))
       = (if length (os_Args w) < 2 then None
          else fst (json_Unmarshal decode_Args (os_Args w ! 1) (Some Args_zero)))"
  by (auto simp: GetArgs_def Let_def split: prod.splits option.splits)

lemma json_Unmarshal_keeps_pointer: "fst (json_Unmarshal decode data (Some d)) \<noteq> None"
  by (auto simp: json_Unmarshal_def split: option.splits prod.splits)

text \<open>
  C1. A failed parse does not leave the package-level variable \<^verbatim>\<open>nil\<close>. Evaluated
  on a process started with the argument \<^verbatim>\<open>not json\<close>: the first call returns the
  parse error and no record, and leaves the variable pointing to the zero record; a
  second call, even after the argument has been replaced by the payload of the
  end-to-end example, does not parse again: it returns that zero record and no error,
  where a process started with the payload gets the decoded record, which is not the
  zero record. (Only the failure for a missing argument leaves the variable \<^verbatim>\<open>nil\<close>,
  see C3.)
\<close>

theorem GetArgs_failed_parse_is_cached:
  \<open>GetArgs (started [''action'', ''not json''])
     = ((None, Some (ErrorString (''unable to parse arguments: invalid character ''
                       @ [CHR 0x27] @ ''o'' @ [CHR 0x27] @ '' in literal null (expecting ''
                       @ [CHR 0x27] @ ''u'' @ [CHR 0x27] @ '')''))),
        (started [''action'', ''not json''])\<lparr>args := Some Args_zero\<rparr>)
   \<and> GetArgs ((started [''action'', ''not json''])
                \<lparr>args := Some Args_zero, os_Args := [''action'', example_payload]\<rparr>)
     = ((Some Args_zero, None),
        (started [''action'', ''not json''])
          \<lparr>args := Some Args_zero, os_Args := [''action'', example_payload]\<rparr>)
   \<and> GetArgs (started [''action'', example_payload])
     = ((Some example_Args, None), (started [''action'', example_payload])\<lparr>args := Some example_Args\<rparr>)
   \<and> example_Args \<noteq> Args_zero\<close>
proof -
  have "example_Args \<noteq> Args_zero"
    by (simp add: example_Args_def Args_zero_def)
  then show ?thesis
    by (simp add: GetArgs_def started_def Unmarshal_not_json Unmarshal_example_payload Errorf_s_def)
qed

text \<open>
  C2. When a record is cached, \<open>GetArgs\<close> returns it with no error and leaves the
  process as it is; the argument vector is not read: the result is the same whatever
  the vector is replaced with, also between two calls.
\<close>

theorem GetArgs_cached:
  "args w = Some a \<Longrightarrow>
     GetArgs w = ((Some a, None), w)
   \<and> GetArgs (w\<lparr>os_Args := argv\<rparr>) = ((Some a, None), w\<lparr>os_Args := argv\<rparr>)
   \<and> fst (GetArgs ((snd (GetArgs w))\<lparr>os_Args := argv\<rparr>)) = fst (GetArgs w)"
  by (simp add: GetArgs_def)

theorem GetArgs_cached_witness:
  \<open>args ((started [''action'', example_payload])\<lparr>args := Some example_Args\<rparr>) = Some example_Args
   \<and> GetArgs ((started [''action'', example_payload])\<lparr>args := Some example_Args\<rparr>)
       = ((Some example_Args, None), (started [''action'', example_payload])\<lparr>args := Some example_Args\<rparr>)
   \<and> GetArgs ((started [''action'', example_payload])\<lparr>args := Some example_Args, os_Args := [''action'', ''not json'']\<rparr>)
       = ((Some example_Args, None),
          (started [''action'', example_payload])\<lparr>args := Some example_Args, os_Args := [''action'', ''not json'']\<rparr>)\<close>
  using GetArgs_cached [of "(started [''action'', example_payload])\<lparr>args := Some example_Args\<rparr>"
      example_Args "[''action'', ''not json'']"]
  by simp

text \<open>
  C3. With no record cached: an argument vector of fewer than two entries gives the
  error "no arguments present" and no record, and the process is unchanged; a first
  argument on which \<^verbatim>\<open>json.Unmarshal\<close> into the record fails with \<open>e\<close> gives no record
  and an error whose message is "unable to parse arguments: " followed by the message
  of \<open>e\<close>.
\<close>

theorem GetArgs_errors:
  "args w = None \<Longrightarrow>
     (length (os_Args w) < 2 \<longrightarrow>
        GetArgs w = ((None, Some (ErrorString ''no arguments present'')), w))
   \<and> (\<forall>a e. 2 \<le> length (os_Args w)
          \<and> json_Unmarshal decode_Args (os_Args w ! 1) (Some Args_zero) = (a, Some e) \<longrightarrow>
        fst (GetArgs w) = (None, Some (ErrorString (''unable to parse arguments: '' @ Error e))))"
  by (auto simp: GetArgs_def Errorf_s_def)

theorem GetArgs_errors_witness:
  \<open>fst (GetArgs (started [''action''])) = (None, Some (ErrorString ''no arguments present''))
   \<and> snd (GetArgs (started [''action''])) = started [''action'']
   \<and> fst (GetArgs (started [''action'', ''not json'']))
       = (None, Some (ErrorString (''unable to parse arguments: invalid character ''
                        @ [CHR 0x27] @ ''o'' @ [CHR 0x27] @ '' in literal null (expecting ''
                        @ [CHR 0x27] @ ''u'' @ [CHR 0x27] @ '')'')))\<close>
  using GetArgs_errors [of "started [''action'']"]
    GetArgs_errors [of "started [''action'', ''not json'']"] Unmarshal_not_json
  by (simp add: started_def)

text \<open>
  C4. \<open>GetMetadata\<close> gets the record from \<open>GetArgs\<close>: an error of \<open>GetArgs\<close> is
  returned as it is, the destination untouched; otherwise the result is that of
  \<^verbatim>\<open>json.Unmarshal\<close> of the record's \<open>Metadata\<close> bytes into the destination, for every
  destination type and its decoder, both when the record is decoded by this call (the
  first argument is a payload that decodes without error) and when it was cached. For
  the payload of the end-to-end example and a \<^verbatim>\<open>struct { X int }\<close>, \<open>X\<close> becomes 5 and
  there is no error; for metadata whose \<open>x\<close> is \<^verbatim>\<open>true\<close>, the result is the decoder's
  type error and \<open>X\<close> is unchanged.
\<close>

theorem GetMetadata_spec:
  \<open>(\<forall>e w'. GetArgs w = ((None, Some e), w') \<longrightarrow>
       GetMetadata decode dest w = Returns (dest, Some e) w')
   \<and> (\<forall>a. args w = None \<and> 2 \<le> length (os_Args w)
          \<and> json_Unmarshal decode_Args (os_Args w ! 1) (Some Args_zero) = (Some a, None) \<longrightarrow>
       GetMetadata decode dest w
         = Returns (json_Unmarshal decode (Metadata a) dest) (w\<lparr>args := Some a\<rparr>))
   \<and> (\<forall>a. args w = Some a \<longrightarrow>
       GetMetadata decode dest w = Returns (json_Unmarshal decode (Metadata a) dest) w)
   \<and> GetMetadata decode_Config (Some \<lparr>X = 0\<rparr>) (started [''action'', example_payload])
       = Returns (Some \<lparr>X = 5\<rparr>, None)
           ((started [''action'', example_payload])\<lparr>args := Some example_Args\<rparr>)
   \<and> GetMetadata decode_Config (Some \<lparr>X = 0\<rparr>) (started [''action'', mismatch_payload])
       = Returns (Some \<lparr>X = 0\<rparr>, Some (UnmarshalTypeError ''bool'' ''int'' ''Config'' ''X''))
           ((started [''action'', mismatch_payload])
              \<lparr>args := Some (Args_zero\<lparr>ArgsVersion := 1, Metadata := ''{"x":true}''\<rparr>)\<rparr>)\<close>
proof (intro conjI allI impI)
  fix e w'
  assume "GetArgs w = ((None, Some e), w')"
  then show "GetMetadata decode dest w = Returns (dest, Some e) w'"
    by (simp add: GetMetadata_def)
next
  fix a
  assume "args w = None \<and> 2 \<le> length (os_Args w)
    \<and> json_Unmarshal decode_Args (os_Args w ! 1) (Some Args_zero) = (Some a, None)"
  then show "GetMetadata decode dest w
    = Returns (json_Unmarshal decode (Metadata a) dest) (w\<lparr>args := Some a\<rparr>)"
    by (simp add: GetMetadata_def GetArgs_def)
next
  fix a
  assume "args w = Some a"
  then show "GetMetadata decode dest w = Returns (json_Unmarshal decode (Metadata a) dest) w"
    by (simp add: GetMetadata_def GetArgs_def)
next
  show "GetMetadata decode_Config (Some \<lparr>X = 0\<rparr>) (started [''action'', example_payload])
    = Returns (Some \<lparr>X = 5\<rparr>, None)
        ((started [''action'', example_payload])\<lparr>args := Some example_Args\<rparr>)"
    by (simp add: GetMetadata_def GetArgs_def started_def Unmarshal_example_payload
        Unmarshal_example_Metadata)
next
  show \<open>GetMetadata decode_Config (Some \<lparr>X = 0\<rparr>) (started [''action'', mismatch_payload])
    = Returns (Some \<lparr>X = 0\<rparr>, Some (UnmarshalTypeError ''bool'' ''int'' ''Config'' ''X''))
        ((started [''action'', mismatch_payload])
           \<lparr>args := Some (Args_zero\<lparr>ArgsVersion := 1, Metadata := ''{"x":true}''\<rparr>)\<rparr>)\<close>
    by (simp add: GetMetadata_def GetArgs_def started_def Unmarshal_mismatch_payload
        Unmarshal_mismatch_Metadata)
qed

theorem GetMetadata_spec_witness:
  \<open>GetArgs (started [''action'']) = ((None, Some (ErrorString ''no arguments present'')), started [''action''])
   \<and> GetMetadata decode_Config (Some \<lparr>X = 0\<rparr>) (started [''action''])
       = Returns (Some \<lparr>X = 0\<rparr>, Some (ErrorString ''no arguments present'')) (started [''action''])
   \<and> args (started [''action'', example_payload]) = None
   \<and> json_Unmarshal decode_Args (os_Args (started [''action'', example_payload]) ! 1) (Some Args_zero)
       = (Some example_Args, None)
   \<and> GetMetadata decode_Config (Some \<lparr>X = 0\<rparr>) (started [''action'', example_payload])
       = Returns (Some \<lparr>X = 5\<rparr>, None)
           ((started [''action'', example_payload])\<lparr>args := Some example_Args\<rparr>)
   \<and> GetMetadata decode_Config (Some \<lparr>X = 0\<rparr>)
         ((started [''action''])\<lparr>args := Some example_Args\<rparr>)
       = Returns (Some \<lparr>X = 5\<rparr>, None) ((started [''action''])\<lparr>args := Some example_Args\<rparr>)\<close>
proof -
  have g: "GetArgs (started [''action''])
      = ((None, Some (ErrorString ''no arguments present'')), started [''action''])"
    by (simp add: GetArgs_def started_def)
  have u: "json_Unmarshal decode_Args (os_Args (started [''action'', example_payload]) ! 1)
      (Some Args_zero) = (Some example_Args, None)"
    by (simp add: started_def Unmarshal_example_payload)
  have n: "args (started [''action'', example_payload]) = None"
    and l: "2 \<le> length (os_Args (started [''action'', example_payload]))"
    by (simp_all add: started_def)
  have c: "args ((started [''action''])\<lparr>args := Some example_Args\<rparr>) = Some example_Args"
    by simp
  show ?thesis
    using g u n l c Unmarshal_example_Metadata
      GetMetadata_spec [of "started [''action'']" decode_Config "Some \<lparr>X = 0\<rparr>"]
      GetMetadata_spec [of "started [''action'', example_payload]" decode_Config "Some \<lparr>X = 0\<rparr>"]
      GetMetadata_spec [of "(started [''action''])\<lparr>args := Some example_Args\<rparr>" decode_Config
        "Some \<lparr>X = 0\<rparr>"]
    by simp
qed

text \<open>
  C5. For every name, \<open>GetSecret\<close> returns the error "secret not found: " followed by
  the name (and the empty string) both when the variable is not set and when it is set
  to the empty string, and returns the variable's value and no error when it is set to
  a non-empty string.
\<close>

theorem GetSecret_spec:
  "(environ w name = None \<or> environ w name = Some [] \<longrightarrow>
      GetSecret name w = ([], Some (ErrorString (''secret not found: '' @ name))))
   \<and> (\<forall>v. environ w name = Some v \<and> v \<noteq> [] \<longrightarrow> GetSecret name w = (v, None))"
  by (auto simp: GetSecret_def os_Getenv_def Errorf_s_def Let_def)

theorem GetSecret_spec_witness:
  "GetSecret ''FOO'' (started [''action''])
     = ([], Some (ErrorString ''secret not found: FOO''))
   \<and> GetSecret ''FOO'' ((started [''action''])\<lparr>environ := [''FOO'' \<mapsto> []]\<rparr>)
     = ([], Some (ErrorString ''secret not found: FOO''))
   \<and> GetSecret ''FOO'' ((started [''action''])\<lparr>environ := [''FOO'' \<mapsto> ''s3cret'']\<rparr>)
     = (''s3cret'', None)"
  using GetSecret_spec [of "started [''action'']" "''FOO''"]
    GetSecret_spec [of "(started [''action''])\<lparr>environ := [''FOO'' \<mapsto> []]\<rparr>" "''FOO''"]
    GetSecret_spec [of "(started [''action''])\<lparr>environ := [''FOO'' \<mapsto> ''s3cret'']\<rparr>" "''FOO''"]
  by (simp add: started_def)

text \<open>
  C6. Where standard output takes the bytes: \<open>WriteResult\<close> of the \<^verbatim>\<open>nil\<close> interface
  value writes the two bytes \<^verbatim>\<open>{}\<close>; \<open>WriteResult\<close> of any other value that
  \<^verbatim>\<open>json.Marshal\<close> encodes writes exactly the encoding, nothing before or after it, and
  changes nothing else; both return no error. The map with the one entry \<open>a\<close>, 1 is
  encoded as \<^verbatim>\<open>{"a":1}\<close>, and that is what is written.
\<close>

theorem WriteResult_spec:
  \<open>(stdout_takes w 2 \<longrightarrow> WriteResult GoNil w = Returns None (wrote ''{}'' w))
   \<and> (\<forall>s. i \<noteq> GoNil \<and> json_Marshal i = Inr s \<and> stdout_takes w (length s) \<longrightarrow>
         WriteResult i w = Returns None (wrote s w))
   \<and> stdout (wrote s w) = stdout w @ s
   \<and> json_Marshal (GoMap (Some [(''a'', GoInt 1)])) = Inr ''{"a":1}''
   \<and> WriteResult (GoMap (Some [(''a'', GoInt 1)])) (started argv)
       = Returns None ((started argv)\<lparr>stdout := ''{"a":1}''\<rparr>)\<close>
proof -
  note m = Marshal_a_1
  have "WriteResult GoNil w = Returns None (wrote ''{}'' w)" if "stdout_takes w 2"
    using that Fprint_Stdout_takes [of w "''{}''"] by (simp add: WriteResult_def eval_nat_numeral)
  moreover have "WriteResult i w = Returns None (wrote s w)"
    if "i \<noteq> GoNil \<and> json_Marshal i = Inr s \<and> stdout_takes w (length s)" for s
    using that Fprint_Stdout_takes [of w s] by (simp add: WriteResult_def)
  moreover have "stdout (wrote s w) = stdout w @ s"
    by (simp add: wrote_def)
  moreover have \<open>WriteResult (GoMap (Some [(''a'', GoInt 1)])) (started argv)
      = Returns None ((started argv)\<lparr>stdout := ''{"a":1}''\<rparr>)\<close>
    using m by (simp add: WriteResult_def Fprint_Stdout_def started_def del: json_Marshal.simps)
  ultimately show ?thesis
    using m by blast
qed

theorem WriteResult_spec_witness:
  \<open>stdout_takes ((started [''action''])\<lparr>stdout_limit := Some (7, Fails (PathError ''write'' ''/dev/stdout'' ''no space left on device''))\<rparr>) 7
   \<and> WriteResult GoNil ((started [''action''])\<lparr>stdout_limit := Some (7, Fails (PathError ''write'' ''/dev/stdout'' ''no space left on device''))\<rparr>)
       = Returns None ((started [''action''])\<lparr>stdout := ''{}'',
            stdout_limit := Some (5, Fails (PathError ''write'' ''/dev/stdout'' ''no space left on device''))\<rparr>)
   \<and> WriteResult (GoMap (Some [(''a'', GoInt 1)]))
         ((started [''action''])\<lparr>stdout_limit := Some (7, Fails (PathError ''write'' ''/dev/stdout'' ''no space left on device''))\<rparr>)
       = Returns None ((started [''action''])\<lparr>stdout := ''{"a":1}'',
            stdout_limit := Some (0, Fails (PathError ''write'' ''/dev/stdout'' ''no space left on device''))\<rparr>)\<close>
  using WriteResult_spec [of "(started [''action''])\<lparr>stdout_limit := Some (7, Fails (PathError ''write'' ''/dev/stdout'' ''no space left on device''))\<rparr>"
      "GoMap (Some [(''a'', GoInt 1)])"] Marshal_a_1
  by (simp add: stdout_takes_def wrote_def started_def del: json_Marshal.simps)

text \<open>
  C7. For every error \<open>e\<close>, the envelope \<^verbatim>\<open>{"error": m}\<close> with \<open>m\<close> the message of
  \<open>e\<close> always marshals, to \<^verbatim>\<open>{"error":\<close> followed by the encoding of the string \<open>m\<close>
  and \<^verbatim>\<open>}\<close>; where standard output takes these bytes, \<open>WriteError\<close> writes exactly them
  and returns. For the message "secret not found: FOO" the bytes are
  \<^verbatim>\<open>{"error":"secret not found: FOO"}\<close>.
\<close>

theorem WriteError_spec:
  \<open>json_Marshal (GoMap (Some [(''error'', GoString (Error e))]))
     = Inr (''{"error":'' @ appendString (Error e) @ ''}'')
   \<and> (stdout_takes w (length (''{"error":'' @ appendString (Error e) @ ''}'')) \<longrightarrow>
        WriteError (Some e) w = Returns () (wrote (''{"error":'' @ appendString (Error e) @ ''}'') w))
   \<and> stdout (wrote s w) = stdout w @ s
   \<and> WriteError (Some (ErrorString ''secret not found: FOO'')) (started argv)
       = Returns () ((started argv)\<lparr>stdout := ''{"error":"secret not found: FOO"}''\<rparr>)\<close>
proof -
  have "WriteError (Some e) w = Returns () (wrote (''{'' @ [CHR 0x22] @ ''error'' @ [CHR 0x22] @ '':'' @ appendString (Error e) @ ''}'') w)"
    if "stdout_takes w (length (''{'' @ [CHR 0x22] @ ''error'' @ [CHR 0x22] @ '':'' @ appendString (Error e) @ ''}''))"
    using that Fprint_Stdout_takes [of w "''{'' @ [CHR 0x22] @ ''error'' @ [CHR 0x22] @ '':'' @ appendString (Error e) @ ''}''"]
    by (simp add: WriteError_def Marshal_error_envelope del: json_Marshal.simps)
  moreover have "stdout (wrote s w) = stdout w @ s"
    by (simp add: wrote_def)
  moreover have \<open>WriteError (Some (ErrorString ''secret not found: FOO'')) (started argv)
      = Returns () ((started argv)\<lparr>stdout := ''{"error":"secret not found: FOO"}''\<rparr>)\<close>
    by (simp add: WriteError_def Marshal_error_envelope appendString_secret_not_found
        Fprint_Stdout_def started_def del: json_Marshal.simps)
  ultimately show ?thesis
    using Marshal_error_envelope [of "Error e"] by (simp del: json_Marshal.simps)
qed

theorem WriteError_spec_witness:
  \<open>stdout_takes (started [''action'']) (length (''{"error":'' @ appendString (Error (ErrorString ''boom'')) @ ''}''))
   \<and> WriteError (Some (ErrorString ''boom'')) (started [''action''])
       = Returns () ((started [''action''])\<lparr>stdout := ''{"error":"boom"}''\<rparr>)\<close>
proof -
  have a: \<open>appendString ''boom'' = ''"boom"''\<close>
    by code_simp
  have t: \<open>stdout_takes (started [''action'']) n\<close> for n
    by (simp add: stdout_takes_def started_def)
  show ?thesis
    using WriteError_spec [of "ErrorString ''boom''" "started [''action'']"] t a
    by (simp add: wrote_def started_def del: json_Marshal.simps)
qed




text \<open>
  C10. The literal \<^verbatim>\<open>{}\<close> is written for the \<^verbatim>\<open>nil\<close> interface value only: every other
  value goes through \<^verbatim>\<open>json.Marshal\<close>, and a \<^verbatim>\<open>nil\<close> pointer, a \<^verbatim>\<open>nil\<close> map and a
  \<^verbatim>\<open>nil\<close> slice are all encoded as \<^verbatim>\<open>null\<close>, which is what \<open>WriteResult\<close> writes for them.
\<close>

theorem WriteResult_typed_nil:
  "(i \<noteq> GoNil \<longrightarrow>
      WriteResult i w
        = (case json_Marshal i of
             Inl e \<Rightarrow> Returns (Some (Errorf_w ''error writing output: '' e)) w
           | Inr byt \<Rightarrow> Fprint_Stdout byt w))
   \<and> (i \<in> {GoPtr None, GoMap None, GoSlice None} \<longrightarrow>
        json_Marshal i = Inr ''null''
        \<and> (stdout_takes w 4 \<longrightarrow> WriteResult i w = Returns None (wrote ''null'' w)))
   \<and> (stdout_takes w 2 \<longrightarrow> WriteResult GoNil w = Returns None (wrote ''{}'' w))
   \<and> stdout (wrote s w) = stdout w @ s"
  using Fprint_Stdout_takes [of w "''null''"] Fprint_Stdout_takes [of w "''{}''"]
  by (auto simp: WriteResult_def wrote_def eval_nat_numeral)

theorem WriteResult_typed_nil_witness:
  "WriteResult (GoPtr None) (started [''action''])
     = Returns None ((started [''action''])\<lparr>stdout := ''null''\<rparr>)
   \<and> WriteResult (GoMap None) (started [''action''])
     = Returns None ((started [''action''])\<lparr>stdout := ''null''\<rparr>)
   \<and> WriteResult (GoSlice None) (started [''action''])
     = Returns None ((started [''action''])\<lparr>stdout := ''null''\<rparr>)
   \<and> WriteResult GoNil (started [''action''])
     = Returns None ((started [''action''])\<lparr>stdout := ''{}''\<rparr>)"
  using WriteResult_typed_nil [of "GoPtr None" "started [''action'']"]
    WriteResult_typed_nil [of "GoMap None" "started [''action'']"]
    WriteResult_typed_nil [of "GoSlice None" "started [''action'']"]
  by (simp add: stdout_takes_def wrote_def started_def Fprint_Stdout_def)

end
